theory Spec2Isabelle
  imports Complex_Main "HOL-Library.AList"
begin

section \<open>Python values\<close>

text \<open>
  The values that \<^verbatim>\<open>json.loads\<close> and \<^verbatim>\<open>json.load\<close> hand to the program.
  Python's \<^verbatim>\<open>int\<close> and \<^verbatim>\<open>float\<close> are both \<open>JNum\<close>, a rational number: floating-point
  rounding, infinities and NaN are outside this model. \<open>JObj\<close> carries the items of a
  decoded \<^verbatim>\<open>dict\<close> in insertion order, with \<open>map_of\<close> as the lookup.
\<close>

datatype json =
    JNull
  | JBool bool
  | JNum rat
  | JStr string
  | JArr "json list"
  | JObj "(string \<times> json) list"

type_synonym dict = "(string \<times> json) list"

datatype error = RuntimeError | AttributeError | KeyError | TypeError | IndexError

definition ebind :: "error + 'a \<Rightarrow> ('a \<Rightarrow> error + 'b) \<Rightarrow> error + 'b" where
  "ebind m f = (case m of Inl e \<Rightarrow> Inl e | Inr x \<Rightarrow> f x)"

text \<open>\<^verbatim>\<open>isinstance(v, (int, float))\<close>: \<^verbatim>\<open>bool\<close> is a subclass of \<^verbatim>\<open>int\<close>.\<close>

fun num_of :: "json \<Rightarrow> rat option" where
  "num_of (JNum r) = Some r"
| "num_of (JBool b) = Some (if b then 1 else 0)"
| "num_of _ = None"

definition is_number :: "json \<Rightarrow> bool" where
  "is_number v = (num_of v \<noteq> None)"

text \<open>\<^verbatim>\<open>v == 0\<close> never raises; \<^verbatim>\<open>v > 0\<close> raises TypeError on a value that is no number.\<close>

definition py_eq0 :: "json \<Rightarrow> bool" where
  "py_eq0 v = (num_of v = Some 0)"

definition py_gt0 :: "json \<Rightarrow> error + bool" where
  "py_gt0 v = (case num_of v of None \<Rightarrow> Inl TypeError | Some r \<Rightarrow> Inr (0 < r))"

text \<open>\<^verbatim>\<open>d.get(k, default)\<close> and \<^verbatim>\<open>d[k]\<close> on a dict.\<close>

definition dict_get :: "dict \<Rightarrow> string \<Rightarrow> json \<Rightarrow> json" where
  "dict_get d k dflt = (case map_of d k of None \<Rightarrow> dflt | Some v \<Rightarrow> v)"

definition dict_item :: "dict \<Rightarrow> string \<Rightarrow> error + json" where
  "dict_item d k = (case map_of d k of None \<Rightarrow> Inl KeyError | Some v \<Rightarrow> Inr v)"

text \<open>\<^verbatim>\<open>item[k]\<close> on a decoded JSON value: only a dict can be subscripted by a string.\<close>

fun json_item :: "json \<Rightarrow> string \<Rightarrow> error + json" where
  "json_item (JObj d) k = dict_item d k"
| "json_item _ k = Inl TypeError"

text \<open>\<^verbatim>\<open>xs[i]\<close> with Python's negative indices.\<close>

definition norm_index :: "nat \<Rightarrow> int \<Rightarrow> nat option" where
  "norm_index n i =
     (if 0 \<le> i \<and> i < int n then Some (nat i)
      else if - int n \<le> i \<and> i < 0 then Some (nat (int n + i))
      else None)"

section \<open>ValueParser: the captured literal and its unit\<close>

text \<open>
  \<^verbatim>\<open>float(num_str)\<close> for the literals group 1 of the patterns can capture
  (\<^verbatim>\<open>[\d,]+(?:\.\d+)?\<close> with the commas removed): ASCII digits with at most one decimal
  point and at least one digit. Every other string is a ValueError here (\<open>None\<close>);
  Python's signs, exponents and special values cannot be captured by the patterns.
\<close>

definition is_digit :: "char \<Rightarrow> bool" where
  "is_digit c = (c \<in> set ''0123456789'')"

definition digit_val :: "char \<Rightarrow> nat" where
  "digit_val c = of_char c - 48"

definition digits_val :: "string \<Rightarrow> nat" where
  "digits_val s = foldl (\<lambda>a c. 10 * a + digit_val c) 0 s"

definition py_float :: "string \<Rightarrow> rat option" where
  "py_float s =
     (let ip = takeWhile is_digit s; rest = dropWhile is_digit s in
      case rest of
        [] \<Rightarrow> if ip = [] then None else Some (of_nat (digits_val ip))
      | c # fp \<Rightarrow>
          if c = CHR ''.'' \<and> list_all is_digit fp \<and> (ip \<noteq> [] \<or> fp \<noteq> [])
          then Some (of_nat (digits_val ip) + of_nat (digits_val fp) / 10 ^ length fp)
          else None)"

text \<open>\<^verbatim>\<open>str.lower\<close> on ASCII letters.\<close>

definition lower_char :: "char \<Rightarrow> char" where
  "lower_char c =
     (case map_of (zip ''ABCDEFGHIJKLMNOPQRSTUVWXYZ'' ''abcdefghijklmnopqrstuvwxyz'') c of
        None \<Rightarrow> c
      | Some l \<Rightarrow> l)"

definition lower :: "string \<Rightarrow> string" where
  "lower s = map lower_char s"

definition unit_multiplier :: "(string \<times> rat) list" where
  "unit_multiplier =
     [(''million'', 1), (''m'', 1), (''M'', 1),
      (''billion'', 1000), (''b'', 1000), (''B'', 1000)]"


section \<open>The external collaborators\<close>

text \<open>
  The text-generation service and the regular-expression library are not code of this
  repository; an extraction run receives them as \<open>services\<close>.

  \<open>call_ollama\<close> answers a prompt. \<open>Failed\<close> is a non-zero return code of the subprocess
  (\<^verbatim>\<open>call_ollama\<close> raises RuntimeError). \<open>Answer dec\<close> is a response text, read as the
  program reads it: markdown stripped, the substring from the first \<^verbatim>\<open>[\<close> to the last
  \<^verbatim>\<open>]\<close> given to \<^verbatim>\<open>json.loads\<close>; \<open>dec = None\<close> when there is no such substring or
  the decoder raises, \<open>dec = Some xs\<close> when it returns the array \<open>xs\<close>.

  \<open>re_search p text\<close> is \<^verbatim>\<open>re.search(p, text, flags=re.IGNORECASE)\<close>: \<open>None\<close> for no match,
  otherwise group 1 and the optional group 2 of the leftmost match.
\<close>

datatype prompt = ExtractionPrompt string | BreakdownPrompt string

datatype reply = Failed | Answer "json list option"

record services =
  call_ollama :: "prompt \<Rightarrow> reply"
  re_search :: "string \<Rightarrow> string \<Rightarrow> (string \<times> string option) option"

section \<open>FallbackExtractor\<close>

text \<open>
  The pattern table of \<^verbatim>\<open>extract_financial_buckets_from_summary\<close>, in the order of the
  source's dict. \<open>bsl\<close> is the backslash; every pattern ends in the same \<open>amount\<close> part
  with the two capture groups.
\<close>

definition bsl :: char where
  "bsl = CHR 0x5C"

definition amount :: string where
  "amount =
     ''[^0-9$]*'' @ bsl # ''$?(['' @ bsl # ''d,]+(?:'' @ bsl # ''.'' @ bsl # ''d+)?)(?:'' @ bsl # ''s*(million|billion|m|b|M|B))?''"

definition patterns :: "(string \<times> string list) list" where
  "patterns =
     [(''Products'',
       [''Products(?:'' @ bsl # ''s+revenue)?'' @ amount,
        ''Product'' @ bsl # ''s+sales'' @ amount]),
      (''Services'',
       [''Services(?:'' @ bsl # ''s+revenue)?'' @ amount,
        ''Service'' @ bsl # ''s+revenue'' @ amount]),
      (''Revenue'',
       [''(?:Total'' @ bsl # ''s+)?Revenue'' @ amount,
        ''Net'' @ bsl # ''s+sales'' @ amount]),
      (''Cost of Revenue'',
       [''Cost'' @ bsl # ''s+of'' @ bsl # ''s+(?:Revenue|Sales)'' @ amount,
        ''COGS'' @ amount]),
      (''Gross Profit'',
       [''Gross'' @ bsl # ''s+Profit'' @ amount,
        ''Gross'' @ bsl # ''s+Margin'' @ amount]),
      (''Operating Expenses'',
       [''Operating'' @ bsl # ''s+Expenses'' @ amount,
        ''(?:Total'' @ bsl # ''s+)?OPEX'' @ amount]),
      (''Operating Income'',
       [''Operating'' @ bsl # ''s+Income'' @ amount,
        ''Income'' @ bsl # ''s+from'' @ bsl # ''s+operations'' @ amount,
        ''Operating'' @ bsl # ''s+(?:profit|earnings)'' @ amount]),
      (''Interest Expense'',
       [''Interest'' @ bsl # ''s+Expense'' @ amount,
        ''Interest'' @ bsl # ''s+expenses'' @ amount]),
      (''Interest Income'',
       [''Interest'' @ bsl # ''s+Income'' @ amount,
        ''Interest'' @ bsl # ''s+earned'' @ amount]),
      (''Other Income/Expense'',
       [''Other'' @ bsl # ''s+Income(?:/Expense)?'' @ amount,
        ''Other'' @ bsl # ''s+income'' @ bsl # ''s+and'' @ bsl # ''s+expense'' @ amount]),
      (''Taxes'',
       [''(?:Income'' @ bsl # ''s+)?Tax(?:es)?(?:'' @ bsl # ''s+Expense)?'' @ amount,
        ''Provision'' @ bsl # ''s+for'' @ bsl # ''s+(?:income'' @ bsl # ''s+)?taxes'' @ amount]),
      (''Net Income'',
       [''Net'' @ bsl # ''s+Income'' @ amount,
        ''Net'' @ bsl # ''s+Earnings'' @ amount,
        ''Net'' @ bsl # ''s+Profit'' @ amount])]"

definition taxonomy :: "string list" where
  "taxonomy = map fst patterns"

text \<open>
  The inner loop over \<^verbatim>\<open>pattern_list\<close>: \<^verbatim>\<open>val\<close> starts at 0.0; a match whose literal
  parses sets it and breaks; a ValueError continues with the next pattern.
\<close>

definition remove_commas :: "string \<Rightarrow> string" where
  "remove_commas num_str = filter (\<lambda>c. c \<noteq> CHR '','') num_str"

text \<open>\<^verbatim>\<open>unit = (m.group(2) or "").lower()\<close>, then \<^verbatim>\<open>unit_multiplier.get(unit, 1.0)\<close>.\<close>

definition unit_factor :: "string option \<Rightarrow> rat" where
  "unit_factor g2 =
     (let unit = lower (case g2 of None \<Rightarrow> [] | Some u \<Rightarrow> u)
      in case map_of unit_multiplier unit of None \<Rightarrow> 1 | Some k \<Rightarrow> k)"

fun scan_patterns :: "services \<Rightarrow> string \<Rightarrow> string list \<Rightarrow> rat" where
  "scan_patterns sv text [] = 0"
| "scan_patterns sv text (pattern # pattern_list) =
     (case re_search sv pattern text of
        None \<Rightarrow> scan_patterns sv text pattern_list
      | Some (g1, g2) \<Rightarrow>
          (case py_float (remove_commas g1) of
             None \<Rightarrow> scan_patterns sv text pattern_list
           | Some val \<Rightarrow> val * unit_factor g2))"

definition make_bucket :: "string \<Rightarrow> rat \<Rightarrow> dict" where
  "make_bucket bucket val = [(''bucket'', JStr bucket), (''value'', JNum val)]"

definition regex_fallback :: "services \<Rightarrow> string \<Rightarrow> dict list" where
  "regex_fallback sv text =
     map (\<lambda>(bucket, pattern_list). make_bucket bucket (scan_patterns sv text pattern_list))
       patterns"

section \<open>PrimaryExtractor: validation of the decoded response\<close>

text \<open>
  \<^verbatim>\<open>all(isinstance(item.get('value', 0), (int, float)) for item in buckets)\<close>:
  \<^verbatim>\<open>all\<close> stops at the first item that fails; \<^verbatim>\<open>.get\<close> on an item that is no dict
  raises AttributeError.
\<close>

fun valid_buckets :: "json list \<Rightarrow> error + bool" where
  "valid_buckets [] = Inr True"
| "valid_buckets (JObj d # items) =
     (if is_number (dict_get d ''value'' (JNum 0)) then valid_buckets items else Inr False)"
| "valid_buckets (_ # items) = Inl AttributeError"

text \<open>\<^verbatim>\<open>all(item.get('value', 0) == 0 for item in buckets)\<close>, on items that are dicts.\<close>

definition all_zero :: "dict list \<Rightarrow> bool" where
  "all_zero ds = list_all (\<lambda>d. py_eq0 (dict_get d ''value'' (JNum 0))) ds"

text \<open>The dict behind a decoded item; every item is one once \<open>valid_buckets\<close> is true.\<close>

fun dict_of :: "json \<Rightarrow> dict" where
  "dict_of (JObj d) = d"
| "dict_of _ = []"

section \<open>Reconciler\<close>

text \<open>
  \<^verbatim>\<open>next((i for i, item in enumerate(buckets) if item["bucket"] == name), -1)\<close>:
  the generator is consumed up to the first hit; an item without the key raises KeyError.
\<close>

fun find_bucket :: "string \<Rightarrow> dict list \<Rightarrow> error + int" where
  "find_bucket name [] = Inr (- 1)"
| "find_bucket name (item # items) =
     ebind (dict_item item ''bucket'') (\<lambda>b.
       if b = JStr name then Inr 0
       else ebind (find_bucket name items) (\<lambda>i. Inr (if i < 0 then - 1 else i + 1)))"

text \<open>\<^verbatim>\<open>buckets[i]["value"]\<close>, read and assigned.\<close>

definition get_value :: "dict list \<Rightarrow> int \<Rightarrow> error + json" where
  "get_value buckets i =
     (case norm_index (length buckets) i of
        None \<Rightarrow> Inl IndexError
      | Some j \<Rightarrow> dict_item (buckets ! j) ''value'')"

definition set_value :: "dict list \<Rightarrow> int \<Rightarrow> json \<Rightarrow> error + dict list" where
  "set_value buckets i v =
     (case norm_index (length buckets) i of
        None \<Rightarrow> Inl IndexError
      | Some j \<Rightarrow> Inr (buckets[j := AList.update ''value'' v (buckets ! j)]))"

text \<open>
  One \<^verbatim>\<open>if item["bucket"] == name and item["value"] > 0: buckets[i]["value"] = item["value"]\<close>
  of the breakdown loop: first the condition, which yields the value to assign if any,
  then the assignment.
\<close>

definition accepted_value :: "string \<Rightarrow> json \<Rightarrow> error + json option" where
  "accepted_value name item =
     ebind (json_item item ''bucket'') (\<lambda>b.
       if b = JStr name then
         ebind (json_item item ''value'') (\<lambda>v.
           ebind (py_gt0 v) (\<lambda>pos. Inr (if pos then Some v else None)))
       else Inr None)"

definition breakdown_step :: "string \<Rightarrow> int \<Rightarrow> json \<Rightarrow> dict list \<Rightarrow> error + dict list" where
  "breakdown_step name i item buckets =
     ebind (accepted_value name item) (\<lambda>a.
       case a of None \<Rightarrow> Inr buckets | Some v \<Rightarrow> set_value buckets i v)"

text \<open>
  \<^verbatim>\<open>for item in breakdown_json\<close> inside the \<^verbatim>\<open>try\<close>: an exception ends the loop and is
  swallowed by the \<^verbatim>\<open>except\<close>; the assignments made before it stay.
\<close>

fun apply_breakdown :: "int \<Rightarrow> int \<Rightarrow> json list \<Rightarrow> dict list \<Rightarrow> dict list" where
  "apply_breakdown products_idx services_idx [] buckets = buckets"
| "apply_breakdown products_idx services_idx (item # items) buckets =
     (case breakdown_step ''Products'' products_idx item buckets of
        Inl e \<Rightarrow> buckets
      | Inr buckets1 \<Rightarrow>
          (case breakdown_step ''Services'' services_idx item buckets1 of
             Inl e \<Rightarrow> buckets1
           | Inr buckets2 \<Rightarrow> apply_breakdown products_idx services_idx items buckets2))"

text \<open>
  The condition of the secondary request, with Python's short-circuit order:
  \<^verbatim>\<open>revenue_idx != -1 and (buckets[products_idx]["value"] == 0 or
  buckets[services_idx]["value"] == 0) and buckets[revenue_idx]["value"] > 0\<close>.
\<close>

definition needs_breakdown :: "dict list \<Rightarrow> int \<Rightarrow> int \<Rightarrow> int \<Rightarrow> error + bool" where
  "needs_breakdown buckets revenue_idx products_idx services_idx =
     (if revenue_idx \<noteq> - 1 then
        ebind (get_value buckets products_idx) (\<lambda>p.
          ebind (if py_eq0 p then Inr True
                 else ebind (get_value buckets services_idx) (\<lambda>s. Inr (py_eq0 s))) (\<lambda>zero.
            if zero then ebind (get_value buckets revenue_idx) py_gt0 else Inr False))
      else Inr False)"

definition request_breakdown ::
  "services \<Rightarrow> string \<Rightarrow> int \<Rightarrow> int \<Rightarrow> dict list \<Rightarrow> dict list" where
  "request_breakdown sv summary_text products_idx services_idx buckets =
     (case call_ollama sv (BreakdownPrompt summary_text) of
        Failed \<Rightarrow> buckets
      | Answer None \<Rightarrow> buckets
      | Answer (Some breakdown_json) \<Rightarrow>
          apply_breakdown products_idx services_idx breakdown_json buckets)"

text \<open>\<^verbatim>\<open>buckets[products_idx]["value"] > 0 and buckets[services_idx]["value"] > 0\<close>.\<close>

definition both_positive :: "dict list \<Rightarrow> int \<Rightarrow> int \<Rightarrow> error + bool" where
  "both_positive buckets products_idx services_idx =
     ebind (get_value buckets products_idx) (\<lambda>p.
       ebind (py_gt0 p) (\<lambda>ppos.
         if ppos then ebind (get_value buckets services_idx) py_gt0 else Inr False))"

text \<open>A value used in arithmetic: TypeError unless it is a number.\<close>

definition as_num :: "json \<Rightarrow> error + rat" where
  "as_num v = (case num_of v of None \<Rightarrow> Inl TypeError | Some r \<Rightarrow> Inr r)"

text \<open>\<^verbatim>\<open>buckets[i]["value"] *= ratio\<close>.\<close>

definition scale_value :: "dict list \<Rightarrow> int \<Rightarrow> rat \<Rightarrow> error + dict list" where
  "scale_value buckets i ratio =
     ebind (get_value buckets i) (\<lambda>v.
       ebind (as_num v) (\<lambda>r. set_value buckets i (JNum (r * ratio))))"

text \<open>The final validation (the block under the comment "Final validation").\<close>

definition final_validation :: "dict list \<Rightarrow> int \<Rightarrow> int \<Rightarrow> int \<Rightarrow> error + dict list" where
  "final_validation buckets revenue_idx products_idx services_idx =
     ebind (both_positive buckets products_idx services_idx) (\<lambda>pos.
       if pos then
         ebind (ebind (get_value buckets products_idx) as_num) (\<lambda>p.
         ebind (ebind (get_value buckets services_idx) as_num) (\<lambda>s.
         let sum_parts = p + s in
         ebind (ebind (get_value buckets revenue_idx) as_num) (\<lambda>revenue_val.
           if \<bar>sum_parts - revenue_val\<bar> > 0.01 * revenue_val \<and> revenue_val > 0 then
             ebind (both_positive buckets products_idx services_idx) (\<lambda>pos2.
               if pos2 then
                 (let ratio = revenue_val / sum_parts in
                  ebind (scale_value buckets products_idx ratio) (\<lambda>buckets1.
                    scale_value buckets1 services_idx ratio))
               else Inr buckets)
           else Inr buckets)))
       else Inr buckets)"

text \<open>
  Reconciliation: everything of \<^verbatim>\<open>extract_financial_buckets_from_summary\<close> from the
  comment "Validate results" to the \<^verbatim>\<open>return\<close>.
\<close>

definition reconcile :: "services \<Rightarrow> string \<Rightarrow> dict list \<Rightarrow> error + dict list" where
  "reconcile sv summary_text buckets =
     ebind (find_bucket ''Revenue'' buckets) (\<lambda>revenue_idx.
     ebind (find_bucket ''Products'' buckets) (\<lambda>products_idx.
     ebind (find_bucket ''Services'' buckets) (\<lambda>services_idx.
     ebind (needs_breakdown buckets revenue_idx products_idx services_idx) (\<lambda>ask.
       final_validation
         (if ask then request_breakdown sv summary_text products_idx services_idx buckets
          else buckets)
         revenue_idx products_idx services_idx))))"

section \<open>The extraction run\<close>

text \<open>
  \<^verbatim>\<open>buckets\<close> after the \<^verbatim>\<open>try\<close>: the decoded array, or the empty list when there
  is none.
\<close>

definition decoded_buckets :: "json list option \<Rightarrow> json list" where
  "decoded_buckets dec = (case dec of None \<Rightarrow> [] | Some xs \<Rightarrow> xs)"

text \<open>
  \<^verbatim>\<open>not buckets or not valid_buckets or all(item.get('value', 0) == 0 for item in buckets)\<close>.
\<close>

definition use_fallback :: "json list \<Rightarrow> bool \<Rightarrow> bool" where
  "use_fallback buckets valid =
     (buckets = [] \<or> \<not> valid \<or> all_zero (map dict_of buckets))"

text \<open>
  The call of \<^verbatim>\<open>call_ollama\<close> for the extraction prompt is outside every \<^verbatim>\<open>try\<close>:
  its RuntimeError leaves the function.
\<close>

definition extract_financial_buckets_from_summary ::
  "services \<Rightarrow> string \<Rightarrow> error + dict list" where
  "extract_financial_buckets_from_summary sv summary_text =
     (case call_ollama sv (ExtractionPrompt summary_text) of
        Failed \<Rightarrow> Inl RuntimeError
      | Answer dec \<Rightarrow>
          (let buckets = decoded_buckets dec in
           ebind (valid_buckets buckets) (\<lambda>valid.
             reconcile sv summary_text
               (if use_fallback buckets valid
                then regex_fallback sv summary_text
                else map dict_of buckets))))"

section \<open>FlowGraphBuilder\<close>

text \<open>
  The state of \<^verbatim>\<open>plot_sankey\<close> while it reads the bucket file: the dicts
  \<^verbatim>\<open>bucket_values\<close>, \<^verbatim>\<open>bucket_display\<close> and \<^verbatim>\<open>derived_items\<close>, and the list
  \<^verbatim>\<open>valid_items\<close>.
\<close>

record sankey =
  bucket_values :: "string \<rightharpoonup> rat"
  bucket_display :: "string \<rightharpoonup> rat"
  valid_items :: "string list"
  derived_items :: "string \<rightharpoonup> rat"

definition empty_sankey :: sankey where
  "empty_sankey =
     \<lparr>bucket_values = Map.empty, bucket_display = Map.empty, valid_items = [],
      derived_items = Map.empty\<rparr>"

definition min_size :: rat where
  "min_size = 1 / 10 ^ 9"

text \<open>
  The loop over \<^verbatim>\<open>buckets_raw\<close>: an item counts when its name is a string and its value
  a number; \<^verbatim>\<open>.get\<close> on an item that is no dict raises AttributeError.
\<close>

fun load_buckets :: "json list \<Rightarrow> sankey \<Rightarrow> error + sankey" where
  "load_buckets [] st = Inr st"
| "load_buckets (JObj d # items) st =
     (case (map_of d ''bucket'', map_of d ''value'') of
        (Some (JStr name), Some v) \<Rightarrow>
          (case num_of v of
             Some val \<Rightarrow>
               load_buckets items
                 (st\<lparr>bucket_values := (bucket_values st)(name \<mapsto> val),
                     bucket_display := (bucket_display st)(name \<mapsto> max \<bar>val\<bar> min_size),
                     valid_items := valid_items st @ [name]\<rparr>)
           | None \<Rightarrow> load_buckets items st)
      | _ \<Rightarrow> load_buckets items st)"
| "load_buckets (_ # items) st = Inl AttributeError"

text \<open>\<^verbatim>\<open>abs(v) if abs(v) > 1e-9 else 1e-9\<close>.\<close>

definition display_size :: "rat \<Rightarrow> rat" where
  "display_size v = (if \<bar>v\<bar> > min_size then \<bar>v\<bar> else min_size)"

definition derive_ebit :: "sankey \<Rightarrow> sankey" where
  "derive_ebit st =
     (case (bucket_values st ''Operating Income'', bucket_values st ''EBIT'') of
        (Some operating_income, None) \<Rightarrow>
          (let ebit_value =
                 (case bucket_values st ''Other Income/Expense'' of
                    None \<Rightarrow> operating_income
                  | Some other \<Rightarrow> operating_income + other)
           in st\<lparr>derived_items := (derived_items st)(''EBIT'' \<mapsto> ebit_value),
                 bucket_display := (bucket_display st)(''EBIT'' \<mapsto> display_size ebit_value),
                 valid_items := valid_items st @ [''EBIT'']\<rparr>)
      | _ \<Rightarrow> st)"

definition derive_ebt :: "sankey \<Rightarrow> sankey" where
  "derive_ebt st =
     (if (bucket_values st ''EBIT'' \<noteq> None \<or> derived_items st ''EBIT'' \<noteq> None)
         \<and> bucket_values st ''EBT'' = None
      then
        (let ebit_value =
               (case derived_items st ''EBIT'' of
                  Some e \<Rightarrow> e
                | None \<Rightarrow> (case bucket_values st ''EBIT'' of Some e \<Rightarrow> e | None \<Rightarrow> 0));
             with_income =
               (case bucket_values st ''Interest Income'' of
                  None \<Rightarrow> ebit_value
                | Some i \<Rightarrow> ebit_value + i);
             ebt_value =
               (case bucket_values st ''Interest Expense'' of
                  None \<Rightarrow> with_income
                | Some e \<Rightarrow> with_income - e)
         in st\<lparr>derived_items := (derived_items st)(''EBT'' \<mapsto> ebt_value),
               bucket_display := (bucket_display st)(''EBT'' \<mapsto> display_size ebt_value),
               valid_items := valid_items st @ [''EBT'']\<rparr>)
      else st)"

text \<open>
  The state after \<^verbatim>\<open>bucket_values.update(derived_items)\<close>; its \<open>valid_items\<close> are the
  nodes of the graph.
\<close>

definition prepare :: "json list \<Rightarrow> error + sankey" where
  "prepare buckets_raw =
     ebind (load_buckets buckets_raw empty_sankey) (\<lambda>st0.
       (let st = derive_ebt (derive_ebit st0)
        in Inr (st\<lparr>bucket_values := bucket_values st ++ derived_items st\<rparr>)))"

text \<open>\<^verbatim>\<open>add_flow\<close>: the flow is added when both ends are nodes.\<close>

definition add_flow ::
  "string list \<Rightarrow> string \<Rightarrow> string \<Rightarrow> (string \<times> string) list \<Rightarrow> (string \<times> string) list" where
  "add_flow nodes src tgt flows =
     (if src \<in> set nodes \<and> tgt \<in> set nodes then flows @ [(src, tgt)] else flows)"

definition revenue_flows :: "string list \<Rightarrow> (string \<times> string) list \<Rightarrow> (string \<times> string) list" where
  "revenue_flows nodes flows =
     add_flow nodes ''Gross Profit'' ''Operating Income''
       (add_flow nodes ''Gross Profit'' ''Operating Expenses''
         (add_flow nodes ''Revenue'' ''Gross Profit''
           (add_flow nodes ''Revenue'' ''Cost of Revenue''
             (add_flow nodes ''Services'' ''Revenue''
               (add_flow nodes ''Products'' ''Revenue'' flows)))))"

definition ebit_flows :: "string list \<Rightarrow> (string \<times> string) list \<Rightarrow> (string \<times> string) list" where
  "ebit_flows nodes flows =
     (if ''EBIT'' \<in> set nodes then
        (let flows1 = add_flow nodes ''Operating Income'' ''EBIT'' flows
         in if ''Other Income/Expense'' \<in> set nodes
            then add_flow nodes ''Other Income/Expense'' ''EBIT'' flows1 else flows1)
      else
        (let flows1 = (if ''Interest Income'' \<in> set nodes
                       then add_flow nodes ''Operating Income'' ''Interest Income'' flows
                       else flows);
             flows2 = (if ''Interest Expense'' \<in> set nodes
                       then add_flow nodes ''Operating Income'' ''Interest Expense'' flows1
                       else flows1)
         in if ''Other Income/Expense'' \<in> set nodes
            then add_flow nodes ''Operating Income'' ''Other Income/Expense'' flows2
            else flows2))"

definition ebt_flows :: "string list \<Rightarrow> (string \<times> string) list \<Rightarrow> (string \<times> string) list" where
  "ebt_flows nodes flows =
     (if ''EBIT'' \<in> set nodes \<and> ''EBT'' \<in> set nodes then
        (let flows1 = add_flow nodes ''EBIT'' ''EBT'' flows;
             flows2 = (if ''Interest Income'' \<in> set nodes
                       then add_flow nodes ''Interest Income'' ''EBT'' flows1 else flows1)
         in if ''Interest Expense'' \<in> set nodes
            then add_flow nodes ''Interest Expense'' ''EBT'' flows2 else flows2)
      else flows)"

definition net_income_flows :: "string list \<Rightarrow> (string \<times> string) list \<Rightarrow> (string \<times> string) list" where
  "net_income_flows nodes flows =
     (if ''EBT'' \<in> set nodes then
        (let flows1 = add_flow nodes ''EBT'' ''Net Income'' flows
         in if ''Taxes'' \<in> set nodes
            then add_flow nodes ''Taxes'' ''Net Income'' flows1 else flows1)
      else
        (let flows1 = add_flow nodes ''Operating Income'' ''Net Income'' flows
         in if ''Taxes'' \<in> set nodes
            then add_flow nodes ''Taxes'' ''Net Income'' flows1 else flows1))"

definition interest_flows :: "string list \<Rightarrow> (string \<times> string) list \<Rightarrow> (string \<times> string) list" where
  "interest_flows nodes flows =
     (let flows1 =
            (if ''Interest Income'' \<in> set nodes \<and> ''Net Income'' \<in> set nodes
                \<and> (''EBIT'' \<notin> set nodes \<and> ''EBT'' \<notin> set nodes)
             then add_flow nodes ''Interest Income'' ''Net Income'' flows else flows)
      in if ''Interest Expense'' \<in> set nodes \<and> ''Net Income'' \<in> set nodes
            \<and> (''EBIT'' \<notin> set nodes \<and> ''EBT'' \<notin> set nodes)
         then add_flow nodes ''Interest Expense'' ''Net Income'' flows1 else flows1)"

text \<open>The list \<^verbatim>\<open>flows\<close> once all the rules have run, in the order of the source.\<close>

definition build_flows :: "string list \<Rightarrow> (string \<times> string) list" where
  "build_flows nodes =
     interest_flows nodes
       (net_income_flows nodes
         (ebt_flows nodes
           (ebit_flows nodes
             (revenue_flows nodes []))))"

text \<open>The nodes and the flows of a bucket file.\<close>

definition flow_graph :: "json list \<Rightarrow> error + (string list \<times> (string \<times> string) list)" where
  "flow_graph buckets_raw =
     ebind (prepare buckets_raw) (\<lambda>st. Inr (valid_items st, build_flows (valid_items st)))"

section \<open>LayoutEngine\<close>

text \<open>
  \<^verbatim>\<open>idx = {n: i for i, n in enumerate(nodes)}\<close>: a key keeps the place of its first
  insertion and takes the index of its last occurrence.
\<close>

definition node_index :: "string list \<Rightarrow> (string \<times> nat) list" where
  "node_index nodes =
     foldl (\<lambda>idx (i, n). AList.update n i idx) [] (enumerate 0 nodes)"

definition levels :: "(rat \<times> string list) list" where
  "levels =
     [(0, [''Products'', ''Services'']),
      (15 / 100, [''Revenue'']),
      (3 / 10, [''Cost of Revenue'', ''Gross Profit'']),
      (45 / 100, [''Operating Expenses'', ''Operating Income'']),
      (6 / 10, [''EBIT'', ''Other Income/Expense'']),
      (75 / 100, [''Interest Income'', ''Interest Expense'', ''EBT'']),
      (9 / 10, [''Taxes'', ''Net Income''])]"

text \<open>\<^verbatim>\<open>node_x\<close>: 0.0 for every node, then the level of each name that is in \<^verbatim>\<open>idx\<close>.\<close>

definition assign_x :: "(string \<times> nat) list \<Rightarrow> nat \<Rightarrow> rat list" where
  "assign_x idx n =
     foldl (\<lambda>node_x (x, names).
              foldl (\<lambda>node_x name.
                       case map_of idx name of
                         None \<Rightarrow> node_x
                       | Some i \<Rightarrow> node_x[i := x])
                node_x names)
       (replicate n 0) levels"

text \<open>\<^verbatim>\<open>x_groups\<close>: the names of \<^verbatim>\<open>idx\<close>, in its order, grouped by their x position.\<close>

definition x_groups :: "(string \<times> nat) list \<Rightarrow> rat list \<Rightarrow> (rat \<times> string list) list" where
  "x_groups idx node_x =
     foldl (\<lambda>groups (name, i).
              (let x_pos = node_x ! i
               in AList.update x_pos
                    ((case map_of groups x_pos of None \<Rightarrow> [] | Some names \<Rightarrow> names) @ [name])
                    groups))
       [] idx"

text \<open>The vertical position of node \<open>i\<close> among \<open>num_nodes\<close> nodes of one group.\<close>

definition y_position :: "nat \<Rightarrow> nat \<Rightarrow> rat" where
  "y_position i num_nodes =
     (if num_nodes > 1 then 1 / 10 + (of_nat i / of_nat (num_nodes - 1)) * (8 / 10)
      else 1 / 2)"

text \<open>
  \<^verbatim>\<open>node_y\<close>: 0.5 for every node, then the position of each name within its group.
  The names of a group are keys of \<^verbatim>\<open>idx\<close>, so \<^verbatim>\<open>idx[name]\<close> cannot fail.
\<close>

definition assign_y ::
  "(string \<times> nat) list \<Rightarrow> (rat \<times> string list) list \<Rightarrow> nat \<Rightarrow> rat list" where
  "assign_y idx groups n =
     foldl (\<lambda>node_y (x_pos, names).
              foldl (\<lambda>node_y (i, name).
                       case map_of idx name of
                         None \<Rightarrow> node_y
                       | Some j \<Rightarrow> node_y[j := y_position i (length names)])
                node_y (enumerate 0 names))
       (replicate n (1 / 2)) groups"

text \<open>The positions \<^verbatim>\<open>(node_x, node_y)\<close> of a node list.\<close>

definition layout :: "string list \<Rightarrow> rat list \<times> rat list" where
  "layout nodes =
     (let idx = node_index nodes;
          node_x = assign_x idx (length nodes);
          groups = x_groups idx node_x
      in (node_x, assign_y idx groups (length nodes)))"

section \<open>Notions used in the statements\<close>

text \<open>The number stored under \<^verbatim>\<open>"value"\<close> in an entry, if there is one.\<close>

definition num_value :: "dict \<Rightarrow> rat option" where
  "num_value d = (case map_of d ''value'' of None \<Rightarrow> None | Some v \<Rightarrow> num_of v)"

text \<open>
  A BucketSet: one entry for each taxonomy key, in the order of the taxonomy, each with
  a number as its value.
\<close>

definition bucket_set :: "dict list \<Rightarrow> bool" where
  "bucket_set bs =
     (map (\<lambda>d. map_of d ''bucket'') bs = map (\<lambda>k. Some (JStr k)) taxonomy \<and>
      list_all (\<lambda>d. num_value d \<noteq> None) bs)"

text \<open>The value of the first entry named \<open>k\<close>.\<close>

definition bucket_value :: "dict list \<Rightarrow> string \<Rightarrow> json option" where
  "bucket_value bs k =
     (case find (\<lambda>d. map_of d ''bucket'' = Some (JStr k)) bs of
        None \<Rightarrow> None
      | Some d \<Rightarrow> map_of d ''value'')"

definition bucket_list :: "(string \<times> rat) list \<Rightarrow> dict list" where
  "bucket_list kvs = map (\<lambda>(k, v). make_bucket k v) kvs"


text \<open>
  What a run of the breakdown loop assigns to Products and to Services: the last accepted
  value of each before the first exception, \<open>None\<close> when there is none.
\<close>

fun assigns :: "json list \<Rightarrow> json option \<times> json option" where
  "assigns [] = (None, None)"
| "assigns (item # items) =
     (case accepted_value ''Products'' item of
        Inl e \<Rightarrow> (None, None)
      | Inr a \<Rightarrow>
          (case accepted_value ''Services'' item of
             Inl e \<Rightarrow> (a, None)
           | Inr b \<Rightarrow>
               (case assigns items of
                  (a', b') \<Rightarrow>
                    ((case a' of None \<Rightarrow> a | Some v \<Rightarrow> Some v),
                     (case b' of None \<Rightarrow> b | Some v \<Rightarrow> Some v)))))"

definition reply_assigns :: "services \<Rightarrow> string \<Rightarrow> json option \<times> json option" where
  "reply_assigns sv summary_text =
     (case call_ollama sv (BreakdownPrompt summary_text) of
        Answer (Some items) \<Rightarrow> assigns items
      | _ \<Rightarrow> (None, None))"

definition assigned :: "json option \<Rightarrow> dict \<Rightarrow> dict" where
  "assigned a d = (case a of None \<Rightarrow> d | Some v \<Rightarrow> AList.update ''value'' v d)"

text \<open>The condition under which the final validation rescales.\<close>

definition deviates :: "rat \<Rightarrow> rat \<Rightarrow> rat \<Rightarrow> bool" where
  "deviates p s r = (0 < p \<and> 0 < s \<and> \<bar>p + s - r\<bar> > 0.01 * r \<and> 0 < r)"

text \<open>The first three entries are Products, Services and Revenue.\<close>

definition front :: "dict \<Rightarrow> dict \<Rightarrow> dict \<Rightarrow> bool" where
  "front d0 d1 d2 =
     (map_of d0 ''bucket'' = Some (JStr ''Products'') \<and>
      map_of d1 ''bucket'' = Some (JStr ''Services'') \<and>
      map_of d2 ''bucket'' = Some (JStr ''Revenue''))"





text \<open>
  The text \<^verbatim>\<open>Revenue 1000\<close>: the first Revenue pattern captures \<^verbatim>\<open>1000\<close> without a
  unit, and no other pattern of the table matches.
\<close>

definition revenue_text :: string where
  "revenue_text = ''Revenue 1000''"

definition revenue_search :: "string \<Rightarrow> string \<Rightarrow> (string \<times> string option) option" where
  "revenue_search p t =
     (if t = revenue_text \<and> p = ''(?:Total'' @ bsl # ''s+)?Revenue'' @ amount
      then Some (''1000'', None) else None)"


text \<open>
  The service answers the extraction prompt with a text that holds no JSON array, and is
  down for the breakdown request.
\<close>

definition undecodable_services :: services where
  "undecodable_services =
     \<lparr>call_ollama = (\<lambda>p. case p of ExtractionPrompt _ \<Rightarrow> Answer None
                               | BreakdownPrompt _ \<Rightarrow> Failed),
      re_search = revenue_search\<rparr>"

text \<open>
  The service answers the extraction prompt with four entries, one of them outside the
  taxonomy, and is down for the breakdown request.
\<close>

definition goodwill_services :: services where
  "goodwill_services =
     \<lparr>call_ollama = (\<lambda>p. case p of
          ExtractionPrompt _ \<Rightarrow>
            Answer (Some [JObj (make_bucket ''Products'' 600),
                          JObj (make_bucket ''Services'' 400),
                          JObj (make_bucket ''Revenue'' 1000),
                          JObj (make_bucket ''Goodwill'' 50)])
        | BreakdownPrompt _ \<Rightarrow> Failed),
      re_search = revenue_search\<rparr>"



section \<open>Notions used in the statements about the flow graph\<close>

text \<open>
  A rank for the names that can be an end of a flow; every rule of \<open>build_flows\<close> goes
  from a lower rank to a higher one.
\<close>

definition stage_rank :: "string \<Rightarrow> nat" where
  "stage_rank n =
     (case map_of
        [(''Products'', 0), (''Services'', 0), (''Revenue'', 1),
         (''Cost of Revenue'', 2), (''Gross Profit'', 2),
         (''Operating Expenses'', 3), (''Operating Income'', 3),
         (''Interest Income'', 4), (''Interest Expense'', 4), (''Other Income/Expense'', 4),
         (''EBIT'', 5), (''EBT'', 6), (''Taxes'', 6), (''Net Income'', 7)] n of
        None \<Rightarrow> 0
      | Some r \<Rightarrow> r)"

definition ranked :: "(string \<times> string) list \<Rightarrow> bool" where
  "ranked flows = list_all (\<lambda>(src, tgt). stage_rank src < stage_rank tgt) flows"

text \<open>The number of flows that leave a node.\<close>

definition out_degree :: "(string \<times> string) list \<Rightarrow> string \<Rightarrow> nat" where
  "out_degree flows n = length (filter (\<lambda>(src, tgt). src = n) flows)"

text \<open>The bucket file written for a list of entries.\<close>

definition bucket_file :: "dict list \<Rightarrow> json list" where
  "bucket_file bs = map JObj bs"

text \<open>
  Operating Income 200, Other Income/Expense -20, Interest Income 5, Interest Expense 15
  and Taxes 40 in a BucketSet whose other entries are 0.
\<close>

definition example3 :: "dict list" where
  "example3 =
     bucket_list
       [(''Products'', 0), (''Services'', 0), (''Revenue'', 0),
        (''Cost of Revenue'', 0), (''Gross Profit'', 0), (''Operating Expenses'', 0),
        (''Operating Income'', 200), (''Interest Expense'', 15), (''Interest Income'', 5),
        (''Other Income/Expense'', - 20), (''Taxes'', 40), (''Net Income'', 0)]"

text \<open>The flows of a BucketSet.\<close>

definition full_flows :: "(string \<times> string) list" where
  "full_flows =
     [(''Products'', ''Revenue''), (''Services'', ''Revenue''),
      (''Revenue'', ''Cost of Revenue''), (''Revenue'', ''Gross Profit''),
      (''Gross Profit'', ''Operating Expenses''), (''Gross Profit'', ''Operating Income''),
      (''Operating Income'', ''EBIT''), (''Other Income/Expense'', ''EBIT''),
      (''EBIT'', ''EBT''), (''Interest Income'', ''EBT''), (''Interest Expense'', ''EBT''),
      (''EBT'', ''Net Income''), (''Taxes'', ''Net Income'')]"

text \<open>The number that the first entry named \<open>k\<close> holds.\<close>

definition bucket_num :: "dict list \<Rightarrow> string \<Rightarrow> rat option" where
  "bucket_num bs k = (case bucket_value bs k of None \<Rightarrow> None | Some v \<Rightarrow> num_of v)"

text \<open>The targets of the flattened topology that is used when there is no EBIT node.\<close>

definition flattened :: "string \<Rightarrow> bool" where
  "flattened x = (x = ''Interest Income'' \<or> x = ''Interest Expense'' \<or> x = ''Other Income/Expense'')"

section \<open>The reconciler on a BucketSet\<close>

lemma taxonomy_eq:
  "taxonomy = [''Products'', ''Services'', ''Revenue'', ''Cost of Revenue'', ''Gross Profit'',
     ''Operating Expenses'', ''Operating Income'', ''Interest Expense'', ''Interest Income'',
     ''Other Income/Expense'', ''Taxes'', ''Net Income'']"
  by (simp add: taxonomy_def patterns_def)

lemma ebind_simps [simp]:
  "ebind (Inl e) f = Inl e" "ebind (Inr x) f = f x"
  by (simp_all add: ebind_def)

lemma norm_index_small:
  "norm_index (Suc (Suc (Suc n))) 0 = Some 0"
  "norm_index (Suc (Suc (Suc n))) 1 = Some 1"
  "norm_index (Suc (Suc (Suc n))) 2 = Some 2"
  by (simp_all add: norm_index_def)

lemma get_value_front:
  "get_value (d0 # d1 # d2 # ds) 0 = dict_item d0 ''value''"
  "get_value (d0 # d1 # d2 # ds) 1 = dict_item d1 ''value''"
  "get_value (d0 # d1 # d2 # ds) 2 = dict_item d2 ''value''"
  by (simp_all add: get_value_def norm_index_small)

lemma set_value_front:
  "set_value (d0 # d1 # d2 # ds) 0 v = Inr (AList.update ''value'' v d0 # d1 # d2 # ds)"
  "set_value (d0 # d1 # d2 # ds) 1 v = Inr (d0 # AList.update ''value'' v d1 # d2 # ds)"
  by (simp_all add: set_value_def norm_index_small)

lemma bucket_of_update [simp]:
  "map_of (AList.update ''value'' v d) ''bucket'' = map_of d ''bucket''"
  "map_of (AList.update ''value'' v d) ''value'' = Some v"
  by (simp_all add: update_conv')

lemma assigned_twice [simp]: "assigned a (assigned a d) = assigned a d"
  by (cases a) (simp_all add: assigned_def)

lemma assigned_over:
  "assigned (case a' of None \<Rightarrow> a | Some v \<Rightarrow> Some v) d = assigned a' (assigned a d)"
  by (cases a'; cases a) (simp_all add: assigned_def)

lemma assigned_None [simp]: "assigned None d = d"
  by (simp add: assigned_def)

lemma apply_breakdown_front:
  "apply_breakdown 0 1 items (d0 # d1 # d2 # ds) =
     assigned (fst (assigns items)) d0 # assigned (snd (assigns items)) d1 # d2 # ds"
proof (induction items arbitrary: d0 d1)
  case Nil
  show ?case by simp
next
  case (Cons item items)
  show ?case
  proof (cases "accepted_value ''Products'' item")
    case (Inl e)
    then show ?thesis by (simp add: breakdown_step_def)
  next
    case a: (Inr a)
    show ?thesis
    proof (cases "accepted_value ''Services'' item")
      case (Inl e)
      with a show ?thesis
        by (cases a) (simp_all add: breakdown_step_def set_value_front assigned_def)
    next
      case b: (Inr b)
      have step1: "breakdown_step ''Products'' 0 item (d0 # d1 # d2 # ds)
                   = Inr (assigned a d0 # d1 # d2 # ds)"
        using a by (cases a) (simp_all add: breakdown_step_def set_value_front assigned_def)
      have step2: "breakdown_step ''Services'' 1 item (assigned a d0 # d1 # d2 # ds)
                   = Inr (assigned a d0 # assigned b d1 # d2 # ds)"
        using b by (cases b) (simp_all add: breakdown_step_def set_value_front assigned_def)
      show ?thesis
        using a b step1 step2 Cons.IH [of "assigned a d0" "assigned b d1"]
        by (simp add: assigned_over split: prod.splits)
    qed
  qed
qed

lemma accepted_value_pos:
  "accepted_value name item = Inr (Some v) \<Longrightarrow> \<exists>x. num_of v = Some x \<and> 0 < x"
  by (auto simp: accepted_value_def ebind_def py_gt0_def split: sum.splits if_splits option.splits)

lemma assigns_pos:
  "(fst (assigns items) = Some v \<longrightarrow> (\<exists>x. num_of v = Some x \<and> 0 < x)) \<and>
   (snd (assigns items) = Some v \<longrightarrow> (\<exists>x. num_of v = Some x \<and> 0 < x))"
proof (induction items)
  case Nil
  show ?case by simp
next
  case (Cons item items)
  show ?case
    using Cons.IH
    by (auto split: sum.splits prod.splits option.splits dest: accepted_value_pos)
qed

lemma request_breakdown_front:
  "request_breakdown sv summary_text 0 1 (d0 # d1 # d2 # ds) =
     assigned (fst (reply_assigns sv summary_text)) d0 #
     assigned (snd (reply_assigns sv summary_text)) d1 # d2 # ds"
  by (simp add: request_breakdown_def reply_assigns_def apply_breakdown_front
      split: reply.splits option.splits)

lemma reply_assigns_pos:
  "fst (reply_assigns sv summary_text) = Some v \<Longrightarrow> \<exists>x. num_of v = Some x \<and> 0 < x"
  "snd (reply_assigns sv summary_text) = Some v \<Longrightarrow> \<exists>x. num_of v = Some x \<and> 0 < x"
  using assigns_pos
  by (auto simp: reply_assigns_def split: reply.splits option.splits)

lemma assigned_lookup [simp]:
  "map_of (assigned a d) ''bucket'' = map_of d ''bucket''"
  "map_of (assigned a d) ''value'' = (case a of None \<Rightarrow> map_of d ''value'' | Some v \<Rightarrow> Some v)"
  by (cases a; simp add: assigned_def)+

lemma num_value_update [simp]:
  "num_value (AList.update ''value'' v d) = num_of v"
  by (simp add: num_value_def)

lemma num_value_assigned:
  "num_value (assigned a d) = (case a of None \<Rightarrow> num_value d | Some v \<Rightarrow> num_of v)"
  by (cases a) (simp_all add: assigned_def)

lemma num_valueD:
  "num_value d = Some x \<Longrightarrow> \<exists>v. map_of d ''value'' = Some v \<and> num_of v = Some x"
  by (auto simp: num_value_def split: option.splits)

lemma needs_breakdown_front:
  assumes "num_value d0 = Some p" "num_value d1 = Some s" "num_value d2 = Some r"
  shows "needs_breakdown (d0 # d1 # d2 # ds) 2 0 1 = Inr (0 < r \<and> (p = 0 \<or> s = 0))"
  using assms
  by (auto simp: needs_breakdown_def get_value_front dict_item_def py_eq0_def py_gt0_def
      dest!: num_valueD)

lemma final_validation_front:
  assumes "num_value d0 = Some p" "num_value d1 = Some s" "num_value d2 = Some r"
  shows "final_validation (d0 # d1 # d2 # ds) 2 0 1 =
     Inr (if deviates p s r
          then AList.update ''value'' (JNum (p * (r / (p + s)))) d0 #
               AList.update ''value'' (JNum (s * (r / (p + s)))) d1 # d2 # ds
          else d0 # d1 # d2 # ds)"
  using assms
  by (auto simp: final_validation_def both_positive_def get_value_front dict_item_def deviates_def
      py_gt0_def as_num_def scale_value_def set_value_front Let_def dest!: num_valueD)

lemma front_assigned [simp]: "front (assigned a d0) (assigned b d1) d2 = front d0 d1 d2"
  by (simp add: front_def)

lemma front_update [simp]:
  "front (AList.update ''value'' v d0) (AList.update ''value'' w d1) d2 = front d0 d1 d2"
  by (simp add: front_def)

lemma find_bucket_of_front:
  assumes "front d0 d1 d2"
  shows "find_bucket ''Products'' (d0 # d1 # d2 # ds) = Inr 0"
    and "find_bucket ''Services'' (d0 # d1 # d2 # ds) = Inr 1"
    and "find_bucket ''Revenue'' (d0 # d1 # d2 # ds) = Inr 2"
  using assms by (simp_all add: front_def dict_item_def)

lemma reconcile_front:
  assumes fr: "front d0 d1 d2"
    and nv: "num_value d0 = Some p" "num_value d1 = Some s" "num_value d2 = Some r"
  shows "reconcile sv summary_text (d0 # d1 # d2 # ds) =
     final_validation
       (if 0 < r \<and> (p = 0 \<or> s = 0)
        then assigned (fst (reply_assigns sv summary_text)) d0 #
             assigned (snd (reply_assigns sv summary_text)) d1 # d2 # ds
        else d0 # d1 # d2 # ds) 2 0 1"
  unfolding reconcile_def find_bucket_of_front [OF fr] ebind_simps
    needs_breakdown_front [OF nv]
  by (auto simp: request_breakdown_front)

lemma rescaled_sum:
  fixes p s r :: rat
  assumes "0 < p" "0 < s"
  shows "p * (r / (p + s)) + s * (r / (p + s)) = r"
proof -
  have nz: "p + s \<noteq> 0" using assms by simp
  have "p * (r / (p + s)) + s * (r / (p + s)) = (p + s) * (r / (p + s))"
    by (rule distrib_right [symmetric])
  also have "\<dots> = r" using nz by simp
  finally show ?thesis .
qed

lemma rescaled_stable:
  assumes "deviates p s r"
  shows "\<not> deviates (p * (r / (p + s))) (s * (r / (p + s))) r"
    and "0 < p * (r / (p + s))" and "0 < s * (r / (p + s))"
proof -
  have pos: "0 < p" "0 < s" "0 < r" using assms by (simp_all add: deviates_def)
  have sum: "p * (r / (p + s)) + s * (r / (p + s)) = r"
    by (rule rescaled_sum [OF pos(1) pos(2)])
  show "\<not> deviates (p * (r / (p + s))) (s * (r / (p + s))) r"
    unfolding deviates_def sum using pos by simp
  show "0 < p * (r / (p + s))" "0 < s * (r / (p + s))"
    using pos by simp_all
qed

lemma reconcile_fixpoint:
  assumes fr: "front d0 d1 d2"
    and nv: "num_value d0 = Some p" "num_value d1 = Some s" "num_value d2 = Some r"
    and stable: "\<not> deviates p s r"
    and unasked: "0 < r \<and> (p = 0 \<or> s = 0) \<Longrightarrow>
       assigned (fst (reply_assigns sv summary_text)) d0 = d0 \<and>
       assigned (snd (reply_assigns sv summary_text)) d1 = d1"
  shows "reconcile sv summary_text (d0 # d1 # d2 # ds) = Inr (d0 # d1 # d2 # ds)"
proof -
  have "reconcile sv summary_text (d0 # d1 # d2 # ds) =
        final_validation (d0 # d1 # d2 # ds) 2 0 1"
    using unasked by (simp add: reconcile_front [OF fr nv])
  also have "\<dots> = Inr (d0 # d1 # d2 # ds)"
    using stable by (simp add: final_validation_front [OF nv])
  finally show ?thesis .
qed

lemma reconcile_front_idem:
  assumes fr: "front d0 d1 d2"
    and nv: "num_value d0 = Some p" "num_value d1 = Some s" "num_value d2 = Some r"
  shows "\<exists>e0 e1. reconcile sv summary_text (d0 # d1 # d2 # ds) = Inr (e0 # e1 # d2 # ds) \<and>
           front e0 e1 d2 \<and> num_value e0 \<noteq> None \<and> num_value e1 \<noteq> None \<and>
           reconcile sv summary_text (e0 # e1 # d2 # ds) = Inr (e0 # e1 # d2 # ds)"
proof -
  define a where "a = fst (reply_assigns sv summary_text)"
  define b where "b = snd (reply_assigns sv summary_text)"
  define ask where "ask = (0 < r \<and> (p = 0 \<or> s = 0))"
  define f0 where "f0 = (if ask then assigned a d0 else d0)"
  define f1 where "f1 = (if ask then assigned b d1 else d1)"
  have "num_value (assigned a d0) \<noteq> None"
    using nv(1) reply_assigns_pos(1) [of sv summary_text]
    by (cases a) (auto simp: a_def num_value_assigned)
  then obtain p1 where p1: "num_value f0 = Some p1"
    using nv(1) by (cases ask) (auto simp: f0_def)
  have "num_value (assigned b d1) \<noteq> None"
    using nv(2) reply_assigns_pos(2) [of sv summary_text]
    by (cases b) (auto simp: b_def num_value_assigned)
  then obtain s1 where s1: "num_value f1 = Some s1"
    using nv(2) by (cases ask) (auto simp: f1_def)
  have frf: "front f0 f1 d2"
    using fr by (simp add: f0_def f1_def)
  have again: "assigned a f0 = f0" "assigned b f1 = f1" if ask
    using that by (simp_all add: f0_def f1_def)
  have run1: "reconcile sv summary_text (d0 # d1 # d2 # ds) =
              final_validation (f0 # f1 # d2 # ds) 2 0 1"
    by (auto simp: reconcile_front [OF fr nv] f0_def f1_def a_def b_def ask_def)
  show ?thesis
  proof (cases "deviates p1 s1 r")
    case True
    define g0 where "g0 = AList.update ''value'' (JNum (p1 * (r / (p1 + s1)))) f0"
    define g1 where "g1 = AList.update ''value'' (JNum (s1 * (r / (p1 + s1)))) f1"
    have out: "reconcile sv summary_text (d0 # d1 # d2 # ds) = Inr (g0 # g1 # d2 # ds)"
      using True by (simp add: run1 final_validation_front [OF p1 s1 nv(3)] g0_def g1_def)
    note st = rescaled_stable [OF True]
    have "reconcile sv summary_text (g0 # g1 # d2 # ds) = Inr (g0 # g1 # d2 # ds)"
    proof (rule reconcile_fixpoint)
      show "front g0 g1 d2" using frf by (simp add: g0_def g1_def)
      show "num_value g0 = Some (p1 * (r / (p1 + s1)))" by (simp add: g0_def)
      show "num_value g1 = Some (s1 * (r / (p1 + s1)))" by (simp add: g1_def)
      show "num_value d2 = Some r" by (rule nv(3))
      show "\<not> deviates (p1 * (r / (p1 + s1))) (s1 * (r / (p1 + s1))) r"
        by (rule st(1))
      show "assigned (fst (reply_assigns sv summary_text)) g0 = g0 \<and>
            assigned (snd (reply_assigns sv summary_text)) g1 = g1"
        if "0 < r \<and> (p1 * (r / (p1 + s1)) = 0 \<or> s1 * (r / (p1 + s1)) = 0)"
        using that st(2,3) by auto
    qed
    moreover have "front g0 g1 d2" using frf by (simp add: g0_def g1_def)
    moreover have "num_value g0 \<noteq> None" "num_value g1 \<noteq> None"
      by (simp_all add: g0_def g1_def)
    ultimately show ?thesis using out by blast
  next
    case False
    have out: "reconcile sv summary_text (d0 # d1 # d2 # ds) = Inr (f0 # f1 # d2 # ds)"
      using False by (simp add: run1 final_validation_front [OF p1 s1 nv(3)])
    have asked: "ask" if "0 < r \<and> (p1 = 0 \<or> s1 = 0)"
    proof (rule ccontr)
      assume "\<not> ask"
      then have "f0 = d0" "f1 = d1" by (simp_all add: f0_def f1_def)
      then have "p1 = p" "s1 = s" using p1 s1 nv by simp_all
      then show False using that \<open>\<not> ask\<close> by (simp add: ask_def)
    qed
    have "reconcile sv summary_text (f0 # f1 # d2 # ds) = Inr (f0 # f1 # d2 # ds)"
    proof (rule reconcile_fixpoint [OF frf p1 s1 nv(3) False])
      show "assigned (fst (reply_assigns sv summary_text)) f0 = f0 \<and>
            assigned (snd (reply_assigns sv summary_text)) f1 = f1"
        if "0 < r \<and> (p1 = 0 \<or> s1 = 0)"
        using asked [OF that] again by (simp add: a_def b_def)
    qed
    then show ?thesis using out frf p1 s1 by auto
  qed
qed

lemma bucket_set_front:
  assumes "bucket_set bs"
  obtains d0 d1 d2 ds p s r where "bs = d0 # d1 # d2 # ds" "front d0 d1 d2"
    "num_value d0 = Some p" "num_value d1 = Some s" "num_value d2 = Some r"
    "map (\<lambda>d. map_of d ''bucket'') ds = map (\<lambda>k. Some (JStr k)) (drop 3 taxonomy)"
    "list_all (\<lambda>d. num_value d \<noteq> None) ds"
  using assms unfolding bucket_set_def taxonomy_eq
  by (auto simp: map_eq_Cons_conv front_def)

lemma bucket_set_cons:
  assumes "front d0 d1 d2" "num_value d0 \<noteq> None" "num_value d1 \<noteq> None" "num_value d2 \<noteq> None"
    "map (\<lambda>d. map_of d ''bucket'') ds = map (\<lambda>k. Some (JStr k)) (drop 3 taxonomy)"
    "list_all (\<lambda>d. num_value d \<noteq> None) ds"
  shows "bucket_set (d0 # d1 # d2 # ds)"
  using assms unfolding bucket_set_def taxonomy_eq
  by (simp add: front_def)




section \<open>The fallback extractor\<close>



lemma scan_hit:
  assumes "re_search sv p doc = Some (g1, g2)" "py_float (remove_commas g1) = Some v"
  shows "scan_patterns sv doc (p # post) = v * unit_factor g2"
  using assms by simp




section \<open>The proportional rescale\<close>

lemma bucket_value_front:
  assumes "front d0 d1 d2"
  shows "bucket_value (d0 # d1 # d2 # ds) ''Products'' = map_of d0 ''value''"
    and "bucket_value (d0 # d1 # d2 # ds) ''Services'' = map_of d1 ''value''"
    and "bucket_value (d0 # d1 # d2 # ds) ''Revenue'' = map_of d2 ''value''"
    and "k \<noteq> ''Products'' \<Longrightarrow> k \<noteq> ''Services'' \<Longrightarrow>
         bucket_value (d0 # d1 # d2 # ds) k = bucket_value (d2 # ds) k"
  using assms by (simp_all add: front_def bucket_value_def)





section \<open>What reconciliation may change\<close>



lemma reconcile_front_result:
  assumes fr: "front d0 d1 d2"
    and nv: "num_value d0 = Some p" "num_value d1 = Some s" "num_value d2 = Some r"
  shows "\<exists>e0 e1. reconcile sv doc (d0 # d1 # d2 # ds) = Inr (e0 # e1 # d2 # ds) \<and>
           front e0 e1 d2 \<and> num_value e0 \<noteq> None \<and> num_value e1 \<noteq> None"
  using reconcile_front_idem [OF fr nv, of sv doc ds] by blast

lemma reconcile_frame:
  assumes "bucket_set bs"
  shows "\<exists>bs'. reconcile sv doc bs = Inr bs' \<and> bucket_set bs' \<and>
           (\<forall>k. k \<noteq> ''Products'' \<and> k \<noteq> ''Services'' \<longrightarrow>
              bucket_value bs' k = bucket_value bs k)"
proof -
  obtain d0 d1 d2 ds p0 s0 r0 where bs: "bs = d0 # d1 # d2 # ds" and fr: "front d0 d1 d2"
    and nv: "num_value d0 = Some p0" "num_value d1 = Some s0" "num_value d2 = Some r0"
    and rest: "map (\<lambda>d. map_of d ''bucket'') ds = map (\<lambda>k. Some (JStr k)) (drop 3 taxonomy)"
      "list_all (\<lambda>d. num_value d \<noteq> None) ds"
    using assms by (rule bucket_set_front)
  obtain e0 e1 where out: "reconcile sv doc (d0 # d1 # d2 # ds) = Inr (e0 # e1 # d2 # ds)"
    and fe: "front e0 e1 d2" and ne: "num_value e0 \<noteq> None" "num_value e1 \<noteq> None"
    using reconcile_front_result [OF fr nv] by blast
  have set': "bucket_set (e0 # e1 # d2 # ds)"
    using fe ne nv(3) rest by (intro bucket_set_cons) simp_all
  have frame: "bucket_value (e0 # e1 # d2 # ds) k = bucket_value bs k"
    if "k \<noteq> ''Products'' \<and> k \<noteq> ''Services''" for k
    using that by (simp add: bs bucket_value_front(4) [OF fr] bucket_value_front(4) [OF fe])
  show ?thesis
    using out set' frame by (auto simp: bs)
qed



lemmas reconcile_eval =
  reconcile_def needs_breakdown_def final_validation_def both_positive_def scale_value_def
  request_breakdown_def breakdown_step_def accepted_value_def get_value_def set_value_def
  norm_index_def dict_item_def py_eq0_def py_gt0_def as_num_def make_bucket_def
  bucket_list_def



section \<open>The extraction run: fallback, primary path and service failure\<close>

lemma set_value_names:
  assumes "set_value bs i v = Inr bs'"
  shows "map (\<lambda>d. map_of d ''bucket'') bs' = map (\<lambda>d. map_of d ''bucket'') bs"
proof -
  obtain j where j: "norm_index (length bs) i = Some j"
    and bs': "bs' = bs[j := AList.update ''value'' v (bs ! j)]"
    using assms by (auto simp: set_value_def split: option.splits)
  have "j < length bs"
    using j by (auto simp: norm_index_def split: if_splits)
  then show ?thesis
    by (simp add: bs' map_update list_update_same_conv)
qed

lemma breakdown_step_names:
  assumes "breakdown_step name i item bs = Inr bs'"
  shows "map (\<lambda>d. map_of d ''bucket'') bs' = map (\<lambda>d. map_of d ''bucket'') bs"
  using assms
  by (auto simp: breakdown_step_def ebind_def split: sum.splits option.splits
      dest: set_value_names)

lemma apply_breakdown_names:
  "map (\<lambda>d. map_of d ''bucket'') (apply_breakdown i1 i2 items bs)
     = map (\<lambda>d. map_of d ''bucket'') bs"
proof (induction items arbitrary: bs)
  case Nil
  show ?case by simp
next
  case (Cons item items)
  show ?case
    using Cons.IH
    by (auto split: sum.splits dest!: breakdown_step_names)
qed

lemma request_breakdown_names:
  "map (\<lambda>d. map_of d ''bucket'') (request_breakdown sv doc i1 i2 bs)
     = map (\<lambda>d. map_of d ''bucket'') bs"
  by (simp add: request_breakdown_def apply_breakdown_names split: reply.splits option.splits)

lemma scale_value_names:
  assumes "scale_value bs i ratio = Inr bs'"
  shows "map (\<lambda>d. map_of d ''bucket'') bs' = map (\<lambda>d. map_of d ''bucket'') bs"
  using assms
  by (auto simp: scale_value_def ebind_def split: sum.splits dest: set_value_names)

lemma final_validation_names:
  assumes "final_validation bs ri i1 i2 = Inr bs'"
  shows "map (\<lambda>d. map_of d ''bucket'') bs' = map (\<lambda>d. map_of d ''bucket'') bs"
  using assms
  by (auto simp: final_validation_def ebind_def Let_def split: sum.splits if_splits
      dest!: scale_value_names)

lemma reconcile_names:
  assumes "reconcile sv doc bs = Inr bs'"
  shows "map (\<lambda>d. map_of d ''bucket'') bs' = map (\<lambda>d. map_of d ''bucket'') bs"
  using assms
  by (auto simp: reconcile_def ebind_def request_breakdown_names
      split: sum.splits if_splits dest!: final_validation_names)


lemma bucket_set_regex_fallback: "bucket_set (regex_fallback sv doc)"
  by (simp add: bucket_set_def regex_fallback_def taxonomy_def make_bucket_def num_value_def
      list_all_iff split_beta comp_def)

lemma bucket_value_made:
  assumes "distinct (map fst kvs)" "(k, ps) \<in> set kvs"
  shows "bucket_value (map (\<lambda>(k, ps). make_bucket k (f ps)) kvs) k = Some (JNum (f ps))"
  using assms
proof (induction kvs)
  case Nil
  then show ?case by simp
next
  case (Cons kv kvs)
  obtain k' ps' where kv: "kv = (k', ps')" by (cases kv)
  show ?case
  proof (cases "k' = k")
    case True
    then have "ps' = ps"
      using Cons.prems by (auto simp: kv rev_image_eqI)
    then show ?thesis
      using True by (simp add: kv bucket_value_def make_bucket_def)
  next
    case False
    then have "(k, ps) \<in> set kvs" "distinct (map fst kvs)"
      using Cons.prems by (auto simp: kv)
    then have "bucket_value (map (\<lambda>(k, ps). make_bucket k (f ps)) kvs) k = Some (JNum (f ps))"
      by (rule Cons.IH [rotated])
    then show ?thesis
      using False by (simp add: kv bucket_value_def make_bucket_def)
  qed
qed

lemma distinct_taxonomy: "distinct taxonomy" "length taxonomy = 12"
  by (simp_all add: taxonomy_eq)

lemma bucket_value_regex_fallback:
  assumes "(k, ps) \<in> set patterns"
  shows "bucket_value (regex_fallback sv doc) k = Some (JNum (scan_patterns sv doc ps))"
  unfolding regex_fallback_def
  using distinct_taxonomy(1) assms
  by (intro bucket_value_made) (simp_all add: taxonomy_def)

lemma extract_fallback:
  assumes "call_ollama sv (ExtractionPrompt doc) = Answer dec"
    and "valid_buckets (decoded_buckets dec) = Inr valid"
    and "use_fallback (decoded_buckets dec) valid"
  shows "extract_financial_buckets_from_summary sv doc = reconcile sv doc (regex_fallback sv doc)"
  using assms by (simp add: extract_financial_buckets_from_summary_def)

lemma extract_primary:
  assumes "call_ollama sv (ExtractionPrompt doc) = Answer dec"
    and "valid_buckets (decoded_buckets dec) = Inr valid"
    and "\<not> use_fallback (decoded_buckets dec) valid"
  shows "extract_financial_buckets_from_summary sv doc
           = reconcile sv doc (map dict_of (decoded_buckets dec))"
  using assms by (simp add: extract_financial_buckets_from_summary_def)

text \<open>
  Claim C1, as amended. An extraction run that takes the fallback path returns a fully
  populated BucketSet: one entry for each of the twelve taxonomy keys, in the order of the
  taxonomy, each with a number; every key other than Products and Services has the value
  its pattern list gave, which is 0 when no pattern gave one. A run that keeps the decoded
  response returns entries with the names of the decoded entries, in their order: unknown
  keys stay and missing keys stay absent.
\<close>

theorem fallback_run_fully_populated:
  "(call_ollama sv (ExtractionPrompt doc) = Answer dec \<and>
    valid_buckets (decoded_buckets dec) = Inr valid \<and>
    use_fallback (decoded_buckets dec) valid \<longrightarrow>
      (\<exists>bs. extract_financial_buckets_from_summary sv doc = Inr bs \<and>
         map (\<lambda>d. map_of d ''bucket'') bs = map (\<lambda>k. Some (JStr k)) taxonomy \<and>
         distinct taxonomy \<and> length taxonomy = 12 \<and>
         list_all (\<lambda>d. num_value d \<noteq> None) bs \<and>
         (\<forall>(k, ps) \<in> set patterns. k \<noteq> ''Products'' \<and> k \<noteq> ''Services'' \<longrightarrow>
            bucket_value bs k = Some (JNum (scan_patterns sv doc ps))))) \<and>
   (call_ollama sv (ExtractionPrompt doc) = Answer dec \<and>
    valid_buckets (decoded_buckets dec) = Inr valid \<and>
    \<not> use_fallback (decoded_buckets dec) valid \<and>
    extract_financial_buckets_from_summary sv doc = Inr bs' \<longrightarrow>
      map (\<lambda>d. map_of d ''bucket'') bs'
        = map (\<lambda>d. map_of d ''bucket'') (map dict_of (decoded_buckets dec)))"
proof (intro conjI impI)
  assume h: "call_ollama sv (ExtractionPrompt doc) = Answer dec \<and>
    valid_buckets (decoded_buckets dec) = Inr valid \<and>
    use_fallback (decoded_buckets dec) valid"
  then have ex: "extract_financial_buckets_from_summary sv doc
                 = reconcile sv doc (regex_fallback sv doc)"
    by (intro extract_fallback [of sv doc dec valid]) simp_all
  obtain bs where out: "reconcile sv doc (regex_fallback sv doc) = Inr bs"
    and bset: "bucket_set bs"
    and frame: "\<forall>k. k \<noteq> ''Products'' \<and> k \<noteq> ''Services'' \<longrightarrow>
               bucket_value bs k = bucket_value (regex_fallback sv doc) k"
    using reconcile_frame [OF bucket_set_regex_fallback, of sv doc] by blast
  have "\<forall>(k, ps) \<in> set patterns. k \<noteq> ''Products'' \<and> k \<noteq> ''Services'' \<longrightarrow>
            bucket_value bs k = Some (JNum (scan_patterns sv doc ps))"
    using frame bucket_value_regex_fallback [of _ _ sv doc] by auto
  then show "\<exists>bs. extract_financial_buckets_from_summary sv doc = Inr bs \<and>
         map (\<lambda>d. map_of d ''bucket'') bs = map (\<lambda>k. Some (JStr k)) taxonomy \<and>
         distinct taxonomy \<and> length taxonomy = 12 \<and>
         list_all (\<lambda>d. num_value d \<noteq> None) bs \<and>
         (\<forall>(k, ps) \<in> set patterns. k \<noteq> ''Products'' \<and> k \<noteq> ''Services'' \<longrightarrow>
            bucket_value bs k = Some (JNum (scan_patterns sv doc ps)))"
    using ex out bset distinct_taxonomy by (auto simp: bucket_set_def)
next
  assume h: "call_ollama sv (ExtractionPrompt doc) = Answer dec \<and>
    valid_buckets (decoded_buckets dec) = Inr valid \<and>
    \<not> use_fallback (decoded_buckets dec) valid \<and>
    extract_financial_buckets_from_summary sv doc = Inr bs'"
  then have "reconcile sv doc (map dict_of (decoded_buckets dec)) = Inr bs'"
    using extract_primary [of sv doc dec valid] by simp
  then show "map (\<lambda>d. map_of d ''bucket'') bs'
        = map (\<lambda>d. map_of d ''bucket'') (map dict_of (decoded_buckets dec))"
    by (rule reconcile_names)
qed


lemmas extract_eval =
  extract_financial_buckets_from_summary_def decoded_buckets_def use_fallback_def all_zero_def
  is_number_def dict_get_def

text \<open>
  Claim C1 as stated fails on the primary path: a decoded response with Products,
  Services, Revenue and the unknown key Goodwill is returned as it is, with Goodwill kept
  and the other nine taxonomy keys absent.
\<close>

theorem primary_run_keeps_decoded_entries:
  "extract_financial_buckets_from_summary goodwill_services revenue_text =
     Inr (bucket_list
       [(''Products'', 600), (''Services'', 400), (''Revenue'', 1000), (''Goodwill'', 50)])"
  by (simp add: goodwill_services_def extract_eval reconcile_eval)



theorem fallback_run_fully_populated_witness:
  "call_ollama undecodable_services (ExtractionPrompt revenue_text) = Answer None \<and>
   valid_buckets (decoded_buckets None) = Inr True \<and>
   use_fallback (decoded_buckets None) True \<and>
   (\<exists>bs. extract_financial_buckets_from_summary undecodable_services revenue_text = Inr bs \<and>
      map (\<lambda>d. map_of d ''bucket'') bs = map (\<lambda>k. Some (JStr k)) taxonomy \<and>
      bucket_value bs ''Revenue'' = Some (JNum 1000) \<and>
      bucket_value bs ''Net Income'' = Some (JNum 0)) \<and>
   call_ollama goodwill_services (ExtractionPrompt revenue_text)
     = Answer (Some [JObj (make_bucket ''Products'' 600), JObj (make_bucket ''Services'' 400),
                     JObj (make_bucket ''Revenue'' 1000), JObj (make_bucket ''Goodwill'' 50)]) \<and>
   \<not> use_fallback
       [JObj (make_bucket ''Products'' 600), JObj (make_bucket ''Services'' 400),
        JObj (make_bucket ''Revenue'' 1000), JObj (make_bucket ''Goodwill'' 50)] True \<and>
   (\<exists>bs'. extract_financial_buckets_from_summary goodwill_services revenue_text = Inr bs' \<and>
      map (\<lambda>d. map_of d ''bucket'') bs'
        = [Some (JStr ''Products''), Some (JStr ''Services''), Some (JStr ''Revenue''),
           Some (JStr ''Goodwill'')])"
proof -
  let ?dec = "[JObj (make_bucket ''Products'' 600), JObj (make_bucket ''Services'' 400),
               JObj (make_bucket ''Revenue'' 1000), JObj (make_bucket ''Goodwill'' 50)]"
  have a1: "call_ollama undecodable_services (ExtractionPrompt revenue_text) = Answer None"
    by (simp add: undecodable_services_def)
  have a2: "valid_buckets (decoded_buckets None) = Inr True"
    by (simp add: decoded_buckets_def)
  have a3: "use_fallback (decoded_buckets None) True"
    by (simp add: decoded_buckets_def use_fallback_def)
  have b1: "call_ollama goodwill_services (ExtractionPrompt revenue_text) = Answer (Some ?dec)"
    by (simp add: goodwill_services_def)
  have b2: "valid_buckets (decoded_buckets (Some ?dec)) = Inr True"
    by (simp add: extract_eval make_bucket_def)
  have b3: "\<not> use_fallback (decoded_buckets (Some ?dec)) True"
    by (simp add: extract_eval make_bucket_def py_eq0_def)
  have b4: "extract_financial_buckets_from_summary goodwill_services revenue_text =
     Inr (bucket_list
       [(''Products'', 600), (''Services'', 400), (''Revenue'', 1000), (''Goodwill'', 50)])"
    by (simp add: goodwill_services_def extract_eval reconcile_eval)
  have pats: "(''Revenue'',
       [''(?:Total'' @ bsl # ''s+)?Revenue'' @ amount, ''Net'' @ bsl # ''s+sales'' @ amount])
       \<in> set patterns"
    "(''Net Income'',
       [''Net'' @ bsl # ''s+Income'' @ amount, ''Net'' @ bsl # ''s+Earnings'' @ amount,
        ''Net'' @ bsl # ''s+Profit'' @ amount]) \<in> set patterns"
    by (simp_all add: patterns_def)
  have scans: "scan_patterns undecodable_services revenue_text
       [''(?:Total'' @ bsl # ''s+)?Revenue'' @ amount, ''Net'' @ bsl # ''s+sales'' @ amount] = 1000"
    "scan_patterns undecodable_services revenue_text
       [''Net'' @ bsl # ''s+Income'' @ amount, ''Net'' @ bsl # ''s+Earnings'' @ amount,
        ''Net'' @ bsl # ''s+Profit'' @ amount] = 0"
    by (simp_all add: undecodable_services_def revenue_search_def revenue_text_def amount_def
        bsl_def py_float_def remove_commas_def is_digit_def digits_val_def digit_val_def
        unit_factor_def lower_def unit_multiplier_def)
  from fallback_run_fully_populated
    [of undecodable_services revenue_text None True "[]"] a1 a2 a3
  obtain bs where
    bs: "extract_financial_buckets_from_summary undecodable_services revenue_text = Inr bs"
      "map (\<lambda>d. map_of d ''bucket'') bs = map (\<lambda>k. Some (JStr k)) taxonomy"
      "\<forall>(k, ps) \<in> set patterns. k \<noteq> ''Products'' \<and> k \<noteq> ''Services'' \<longrightarrow>
         bucket_value bs k = Some (JNum (scan_patterns undecodable_services revenue_text ps))"
    by blast
  have v: "bucket_value bs ''Revenue'' = Some (JNum 1000)"
    "bucket_value bs ''Net Income'' = Some (JNum 0)"
    using bs(3) pats scans by force+
  have names: "map (\<lambda>d. map_of d ''bucket'')
       (bucket_list [(''Products'', 600), (''Services'', 400), (''Revenue'', 1000),
          (''Goodwill'', 50)])
     = map (\<lambda>d. map_of d ''bucket'') (map dict_of (decoded_buckets (Some ?dec)))"
    using fallback_run_fully_populated
      [of goodwill_services revenue_text "Some ?dec" True
          "bucket_list [(''Products'', 600), (''Services'', 400), (''Revenue'', 1000),
             (''Goodwill'', 50)]"] b1 b2 b3 b4
    by blast
  have "map (\<lambda>d. map_of d ''bucket'') (map dict_of (decoded_buckets (Some ?dec)))
        = [Some (JStr ''Products''), Some (JStr ''Services''), Some (JStr ''Revenue''),
           Some (JStr ''Goodwill'')]"
    by (simp add: decoded_buckets_def make_bucket_def)
  with names b4 have prim: "\<exists>bs'. extract_financial_buckets_from_summary goodwill_services
        revenue_text = Inr bs' \<and>
      map (\<lambda>d. map_of d ''bucket'') bs'
        = [Some (JStr ''Products''), Some (JStr ''Services''), Some (JStr ''Revenue''),
           Some (JStr ''Goodwill'')]"
    by simp
  have b3': "\<not> use_fallback ?dec True"
    using b3 by (simp add: decoded_buckets_def)
  show ?thesis
    using a1 a2 a3 bs(1,2) v b1 b3' prim by blast
qed







section \<open>The flow graph: ranks, nodes and the EBIT node\<close>

lemma add_flow_mem:
  "e \<in> set (add_flow nodes src tgt flows) \<longleftrightarrow>
     e \<in> set flows \<or> (e = (src, tgt) \<and> src \<in> set nodes \<and> tgt \<in> set nodes)"
  by (auto simp: add_flow_def)

lemma ranked_add_flow:
  "ranked flows \<Longrightarrow> stage_rank src < stage_rank tgt \<Longrightarrow> ranked (add_flow nodes src tgt flows)"
  by (simp add: ranked_def add_flow_def)

lemma stage_rank_values:
  "stage_rank ''Products'' = 0" "stage_rank ''Services'' = 0" "stage_rank ''Revenue'' = 1"
  "stage_rank ''Cost of Revenue'' = 2" "stage_rank ''Gross Profit'' = 2"
  "stage_rank ''Operating Expenses'' = 3" "stage_rank ''Operating Income'' = 3"
  "stage_rank ''Interest Income'' = 4" "stage_rank ''Interest Expense'' = 4"
  "stage_rank ''Other Income/Expense'' = 4" "stage_rank ''EBIT'' = 5" "stage_rank ''EBT'' = 6"
  "stage_rank ''Taxes'' = 6" "stage_rank ''Net Income'' = 7"
  by (simp_all add: stage_rank_def)

lemma ranked_revenue_flows: "ranked flows \<Longrightarrow> ranked (revenue_flows nodes flows)"
  by (simp add: revenue_flows_def ranked_add_flow stage_rank_values)

lemma ranked_ebit_flows: "ranked flows \<Longrightarrow> ranked (ebit_flows nodes flows)"
  by (simp add: ebit_flows_def ranked_add_flow stage_rank_values Let_def)

lemma ranked_ebt_flows: "ranked flows \<Longrightarrow> ranked (ebt_flows nodes flows)"
  by (simp add: ebt_flows_def ranked_add_flow stage_rank_values Let_def)

lemma ranked_net_income_flows: "ranked flows \<Longrightarrow> ranked (net_income_flows nodes flows)"
  by (simp add: net_income_flows_def ranked_add_flow stage_rank_values Let_def)

lemma ranked_interest_flows: "ranked flows \<Longrightarrow> ranked (interest_flows nodes flows)"
  by (simp add: interest_flows_def ranked_add_flow stage_rank_values Let_def)

lemma ranked_build_flows: "ranked (build_flows nodes)"
  unfolding build_flows_def
  by (intro ranked_interest_flows ranked_net_income_flows ranked_ebt_flows ranked_ebit_flows
      ranked_revenue_flows) (simp add: ranked_def)

lemma ranked_acyclic:
  assumes "ranked flows"
  shows "acyclic (set flows)"
proof -
  have "set flows \<subseteq> inv_image less_than stage_rank"
    using assms by (auto simp: ranked_def list_all_iff)
  moreover have "acyclic (inv_image less_than stage_rank)"
    by (intro wf_acyclic wf_inv_image wf_less_than)
  ultimately show ?thesis by (rule acyclic_subset [rotated])
qed


lemma load_buckets_JObj:
  "\<exists>st1. load_buckets (JObj d # items) st = load_buckets items st1 \<and>
     (st1 = st \<or>
      (\<exists>name val. st1 = st\<lparr>bucket_values := (bucket_values st)(name \<mapsto> val),
                             bucket_display := (bucket_display st)(name \<mapsto> max \<bar>val\<bar> min_size),
                             valid_items := valid_items st @ [name]\<rparr>))"
  by (simp split: option.splits json.splits) blast

lemma load_buckets_inv:
  assumes "load_buckets items st = Inr st'"
    and "set (valid_items st) = dom (bucket_values st)"
  shows "set (valid_items st') = dom (bucket_values st') \<and> derived_items st' = derived_items st"
  using assms
proof (induction items arbitrary: st)
  case Nil
  then show ?case by simp
next
  case (Cons item items)
  show ?case
  proof (cases item)
    case (JObj d)
    obtain st1 where run: "load_buckets (JObj d # items) st = load_buckets items st1"
      and st1: "st1 = st \<or>
        (\<exists>name val. st1 = st\<lparr>bucket_values := (bucket_values st)(name \<mapsto> val),
                             bucket_display := (bucket_display st)(name \<mapsto> max \<bar>val\<bar> min_size),
                             valid_items := valid_items st @ [name]\<rparr>)"
      using load_buckets_JObj [of d items st] by blast
    have inv1: "set (valid_items st1) = dom (bucket_values st1)"
      using st1 Cons.prems(2) by auto
    have der: "derived_items st1 = derived_items st"
      using st1 by auto
    have "load_buckets items st1 = Inr st'"
      using Cons.prems(1) run by (simp add: JObj)
    from Cons.IH [OF this inv1] der show ?thesis by simp
  qed (use Cons.prems in simp_all)
qed

lemma load_buckets_empty:
  assumes "load_buckets items empty_sankey = Inr st0"
  shows "set (valid_items st0) = dom (bucket_values st0)" "derived_items st0 = Map.empty"
  using load_buckets_inv [OF assms] by (simp_all add: empty_sankey_def)

lemma prepareD:
  assumes "prepare raw = Inr st"
  obtains st0 where "load_buckets raw empty_sankey = Inr st0"
    and "st = (derive_ebt (derive_ebit st0))
            \<lparr>bucket_values := bucket_values (derive_ebt (derive_ebit st0))
                              ++ derived_items (derive_ebt (derive_ebit st0))\<rparr>"
  using assms by (auto simp: prepare_def ebind_def Let_def split: sum.splits)

lemma valid_items_derive_ebit:
  "set (valid_items (derive_ebit st)) =
     set (valid_items st) \<union>
     (if bucket_values st ''Operating Income'' \<noteq> None \<and> bucket_values st ''EBIT'' = None
      then {''EBIT''} else {})"
  by (auto simp: derive_ebit_def Let_def split: option.splits)

lemma valid_items_derive_ebt: "set (valid_items st) \<subseteq> set (valid_items (derive_ebt st))"
  by (auto simp: derive_ebt_def Let_def)

lemma operating_income_brings_ebit:
  assumes "prepare raw = Inr st" "''Operating Income'' \<in> set (valid_items st)"
  shows "''EBIT'' \<in> set (valid_items st)"
proof -
  obtain st0 where ld: "load_buckets raw empty_sankey = Inr st0"
    and st: "st = (derive_ebt (derive_ebit st0))
            \<lparr>bucket_values := bucket_values (derive_ebt (derive_ebit st0))
                              ++ derived_items (derive_ebt (derive_ebit st0))\<rparr>"
    using assms(1) by (rule prepareD)
  have eq: "set (valid_items st0) = dom (bucket_values st0)"
    by (rule load_buckets_empty(1) [OF ld])
  have "''Operating Income'' \<in> set (valid_items (derive_ebt (derive_ebit st0)))"
    using assms(2) by (simp add: st)
  then have "''Operating Income'' \<in> set (valid_items (derive_ebit st0))"
    by (auto simp: derive_ebt_def Let_def split: if_splits)
  then have oi: "bucket_values st0 ''Operating Income'' \<noteq> None"
    using eq by (auto simp: valid_items_derive_ebit split: if_splits)
  have "''EBIT'' \<in> set (valid_items (derive_ebit st0))"
  proof (cases "bucket_values st0 ''EBIT''")
    case None
    then show ?thesis using oi by (simp add: valid_items_derive_ebit)
  next
    case (Some e)
    then have "''EBIT'' \<in> set (valid_items st0)" using eq by auto
    then show ?thesis by (simp add: valid_items_derive_ebit)
  qed
  then show ?thesis
    using valid_items_derive_ebt [of "derive_ebit st0"] by (auto simp: st)
qed

lemma flattened_revenue_flows:
  "flattened x \<Longrightarrow> (''Operating Income'', x) \<in> set (revenue_flows nodes flows)
     \<longleftrightarrow> (''Operating Income'', x) \<in> set flows"
  by (simp add: revenue_flows_def add_flow_mem)

lemma flattened_ebit_flows:
  "flattened x \<Longrightarrow> ''Operating Income'' \<in> set nodes \<longrightarrow> ''EBIT'' \<in> set nodes \<Longrightarrow>
   (''Operating Income'', x) \<in> set (ebit_flows nodes flows)
     \<longleftrightarrow> (''Operating Income'', x) \<in> set flows"
  by (auto simp: ebit_flows_def add_flow_mem Let_def flattened_def)

lemma flattened_ebt_flows:
  "flattened x \<Longrightarrow> (''Operating Income'', x) \<in> set (ebt_flows nodes flows)
     \<longleftrightarrow> (''Operating Income'', x) \<in> set flows"
  by (simp add: ebt_flows_def add_flow_mem Let_def)

lemma flattened_net_income_flows:
  "flattened x \<Longrightarrow> (''Operating Income'', x) \<in> set (net_income_flows nodes flows)
     \<longleftrightarrow> (''Operating Income'', x) \<in> set flows"
  by (auto simp: net_income_flows_def add_flow_mem Let_def flattened_def)

lemma flattened_interest_flows:
  "flattened x \<Longrightarrow> (''Operating Income'', x) \<in> set (interest_flows nodes flows)
     \<longleftrightarrow> (''Operating Income'', x) \<in> set flows"
  by (simp add: interest_flows_def add_flow_mem Let_def)

lemma no_flattened_flows:
  assumes "''Operating Income'' \<in> set nodes \<longrightarrow> ''EBIT'' \<in> set nodes" "flattened x"
  shows "(''Operating Income'', x) \<notin> set (build_flows nodes)"
  using assms
  by (simp add: build_flows_def flattened_interest_flows flattened_net_income_flows
      flattened_ebt_flows flattened_ebit_flows flattened_revenue_flows)

text \<open>
  Claim C10. In every graph build, when Operating Income is among the nodes, EBIT is
  among the nodes too (supplied in the bucket file or derived), and the flows of the
  no-EBIT fallback, from Operating Income to Interest Income, to Interest Expense and to
  Other Income/Expense, are not in the flow list.
\<close>

theorem operating_income_never_without_ebit:
  assumes "flow_graph raw = Inr (nodes, flows)"
  shows "(''Operating Income'' \<in> set nodes \<longrightarrow> ''EBIT'' \<in> set nodes) \<and>
         (''Operating Income'', ''Interest Income'') \<notin> set flows \<and>
         (''Operating Income'', ''Interest Expense'') \<notin> set flows \<and>
         (''Operating Income'', ''Other Income/Expense'') \<notin> set flows"
proof -
  obtain st where st: "prepare raw = Inr st" "nodes = valid_items st"
    "flows = build_flows (valid_items st)"
    using assms by (auto simp: flow_graph_def ebind_def split: sum.splits)
  have imp: "''Operating Income'' \<in> set nodes \<longrightarrow> ''EBIT'' \<in> set nodes"
    using operating_income_brings_ebit [OF st(1)] by (simp add: st(2))
  then show ?thesis
    using no_flattened_flows [of nodes] by (simp add: st(2,3) flattened_def)
qed


lemma load_buckets_step:
  assumes "map_of d ''bucket'' = Some (JStr name)" "num_value d = Some x"
  shows "load_buckets (JObj d # items) st =
     load_buckets items
       (st\<lparr>bucket_values := (bucket_values st)(name \<mapsto> x),
           bucket_display := (bucket_display st)(name \<mapsto> max \<bar>x\<bar> min_size),
           valid_items := valid_items st @ [name]\<rparr>)"
  using assms by (auto simp: num_value_def split: option.splits)

lemma bucket_set_elems:
  assumes "bucket_set bs"
  obtains d0 d1 d2 d3 d4 d5 d6 d7 d8 d9 d10 d11 where
    "bs = [d0, d1, d2, d3, d4, d5, d6, d7, d8, d9, d10, d11]"
    "map_of d0 ''bucket'' = Some (JStr ''Products'')"
    "map_of d1 ''bucket'' = Some (JStr ''Services'')"
    "map_of d2 ''bucket'' = Some (JStr ''Revenue'')"
    "map_of d3 ''bucket'' = Some (JStr ''Cost of Revenue'')"
    "map_of d4 ''bucket'' = Some (JStr ''Gross Profit'')"
    "map_of d5 ''bucket'' = Some (JStr ''Operating Expenses'')"
    "map_of d6 ''bucket'' = Some (JStr ''Operating Income'')"
    "map_of d7 ''bucket'' = Some (JStr ''Interest Expense'')"
    "map_of d8 ''bucket'' = Some (JStr ''Interest Income'')"
    "map_of d9 ''bucket'' = Some (JStr ''Other Income/Expense'')"
    "map_of d10 ''bucket'' = Some (JStr ''Taxes'')"
    "map_of d11 ''bucket'' = Some (JStr ''Net Income'')"
    "list_all (\<lambda>d. num_value d \<noteq> None) [d0, d1, d2, d3, d4, d5, d6, d7, d8, d9, d10, d11]"
  using assms unfolding bucket_set_def taxonomy_eq
  by (auto simp: map_eq_Cons_conv)

end
